theory Spec2Isabelle
  imports Complex_Main "HOL-Library.Word"
begin

section \<open>JavaScript values used by the front end\<close>

text \<open>
  The front end (\<^verbatim>\<open>App.jsx\<close>) is JavaScript. A JavaScript string is a sequence of
  UTF-16 code units, and \<^verbatim>\<open>length\<close>, \<^verbatim>\<open>substring\<close>, \<^verbatim>\<open>split\<close> and
  \<^verbatim>\<open>trim\<close> all count code units, so a string is modelled as a list of 16-bit words.
  ASCII literals of the source are written through \<open>js\<close>; the Chinese and emoji literals
  are written out as their code units.
\<close>

type_synonym jsstring = "16 word list"

definition js :: "string \<Rightarrow> jsstring" where
  "js s = map (\<lambda>c. of_nat (of_char c)) s"

text \<open>
  \<^verbatim>\<open>String.prototype.trim\<close> removes WhiteSpace and LineTerminator code points from
  both ends (ECMA-262, 22.1.3.32); all of them lie in the basic plane.
\<close>

definition isWhiteSpace :: "16 word \<Rightarrow> bool" where
  "isWhiteSpace c \<longleftrightarrow>
     c \<in> {0x0009, 0x000A, 0x000B, 0x000C, 0x000D, 0x0020, 0x00A0, 0x1680,
          0x2028, 0x2029, 0x202F, 0x205F, 0x3000, 0xFEFF}
     \<or> (0x2000 \<le> c \<and> c \<le> 0x200A)"

definition trim :: "jsstring \<Rightarrow> jsstring" where
  "trim s = rev (dropWhile isWhiteSpace (rev (dropWhile isWhiteSpace s)))"

text \<open>
  A JavaScript number is an IEEE 754 double: a finite value, one of the two infinities,
  or NaN. Finite values are carried as reals; the rounding of an arithmetic result to
  a double is the parameter \<open>rnd\<close> of \<open>js_times\<close>, so that nothing proved below depends
  on how a product is rounded (or on whether it overflows).
\<close>

datatype jsnum = NaN | NegInf | Fin real | PosInf

fun js_times :: "(real \<Rightarrow> jsnum) \<Rightarrow> jsnum \<Rightarrow> jsnum \<Rightarrow> jsnum" where
  "js_times rnd NaN _ = NaN"
| "js_times rnd _ NaN = NaN"
| "js_times rnd (Fin a) (Fin b) = rnd (a * b)"
| "js_times rnd (Fin a) PosInf = (if a = 0 then NaN else if 0 < a then PosInf else NegInf)"
| "js_times rnd (Fin a) NegInf = (if a = 0 then NaN else if 0 < a then NegInf else PosInf)"
| "js_times rnd PosInf (Fin b) = (if b = 0 then NaN else if 0 < b then PosInf else NegInf)"
| "js_times rnd NegInf (Fin b) = (if b = 0 then NaN else if 0 < b then NegInf else PosInf)"
| "js_times rnd PosInf PosInf = PosInf"
| "js_times rnd NegInf NegInf = PosInf"
| "js_times rnd PosInf NegInf = NegInf"
| "js_times rnd NegInf PosInf = NegInf"

text \<open>\<^verbatim>\<open>Math.round(x)\<close>: the integer nearest to \<open>x\<close>, ties towards \<open>+\<infinity>\<close>.\<close>

fun Math_round :: "jsnum \<Rightarrow> jsnum" where
  "Math_round (Fin x) = Fin (of_int \<lfloor>x + 1 / 2\<rfloor>)"
| "Math_round v = v"

text \<open>\<^verbatim>\<open>Math.min(a, b)\<close>: NaN when either argument is NaN.\<close>

fun Math_min :: "jsnum \<Rightarrow> jsnum \<Rightarrow> jsnum" where
  "Math_min NaN _ = NaN"
| "Math_min _ NaN = NaN"
| "Math_min NegInf _ = NegInf"
| "Math_min _ NegInf = NegInf"
| "Math_min PosInf b = b"
| "Math_min a PosInf = a"
| "Math_min (Fin a) (Fin b) = Fin (min a b)"

text \<open>The comparison \<^verbatim>\<open>a > b\<close> of two numbers: false when either is NaN.\<close>

fun exceeds :: "jsnum \<Rightarrow> jsnum \<Rightarrow> bool" where
  "exceeds NaN _ = False"
| "exceeds _ NaN = False"
| "exceeds NegInf _ = False"
| "exceeds _ PosInf = False"
| "exceeds PosInf _ = True"
| "exceeds _ NegInf = True"
| "exceeds (Fin a) (Fin b) = (b < a)"


section \<open>Data model of the front end\<close>

text \<open>
  A source reference of an answer. \<open>relevance_score\<close> is whatever number the
  multiplication \<^verbatim>\<open>source.relevance_score * 100\<close> sees after coercion; a missing or
  non-numeric field is \<open>NaN\<close> there.
\<close>

record source =
  document_id :: jsstring
  document_name :: jsstring
  relevance_score :: jsnum

text \<open>
  A chat message: \<^verbatim>\<open>{role, content, sources?, imageBase64?}\<close>. An absent optional
  field is \<open>None\<close>.
\<close>

record message =
  role :: jsstring
  content :: jsstring
  sources :: "source list option"
  imageBase64 :: "jsstring option"


text \<open>
  A document of the knowledge base, as the upload endpoint returns it. The field
  \<^verbatim>\<open>id\<close> is \<open>doc_id\<close> here.
\<close>

record document =
  doc_id :: jsstring
  filename :: jsstring
  file_type :: jsstring
  chunk_count :: nat

text \<open>A browser \<^verbatim>\<open>File\<close>: its name and its bytes.\<close>

record js_file =
  name :: jsstring
  bytes :: "8 word list"

text \<open>A toast \<^verbatim>\<open>{id, message, type}\<close>; the id is \<^verbatim>\<open>Date.now()\<close>.\<close>

record toast =
  toast_id :: nat
  toast_message :: jsstring
  toast_type :: jsstring

text \<open>An entry of the image history: \<^verbatim>\<open>{id, prompt, imageBase64, createdAt}\<close>.\<close>

record image_entry =
  entry_id :: nat
  entry_prompt :: jsstring
  entry_imageBase64 :: "jsstring option"
  createdAt :: jsstring

text \<open>A recommended topic \<^verbatim>\<open>{type, title, description, prompt}\<close> of the recommendation endpoints.\<close>

record recommendation =
  rec_type :: jsstring
  title :: jsstring
  rec_description :: jsstring
  rec_prompt :: jsstring

text \<open>
  The state of the \<^verbatim>\<open>App\<close> component: one field per \<^verbatim>\<open>useState\<close>. The
  object \<^verbatim>\<open>displayNames\<close> is a map from document ids to names.
\<close>

record app =
  inputMode :: jsstring
  documents :: "document list"
  messages :: "message list"
  inputValue :: jsstring
  isLoading :: bool
  isUploading :: bool
  toasts :: "toast list"
  sidebarCollapsed :: bool
  displayNames :: "jsstring \<rightharpoonup> jsstring"
  previewImage :: "jsstring option"
  imageStyle :: jsstring
  imageHistory :: "image_entry list"
  showRecommendations :: bool
  recommendations :: "recommendation list"
  isLoadingRecommendations :: bool

definition initial :: app where
  "initial =
     \<lparr>inputMode = js ''chat'', documents = [], messages = [], inputValue = [],
      isLoading = False, isUploading = False, toasts = [], sidebarCollapsed = False,
      displayNames = Map.empty, previewImage = None, imageStyle = js ''mindmap'',
      imageHistory = [], showRecommendations = False, recommendations = [],
      isLoadingRecommendations = False\<rparr>"


section \<open>Requests, replies and effects\<close>

text \<open>The JSON body of \<^verbatim>\<open>POST /generate/visualization\<close>.\<close>

record visualization_request =
  prompt :: jsstring
  style :: jsstring
  conversation_history :: jsstring
  aspect_ratio :: jsstring

text \<open>The \<^verbatim>\<open>fetch\<close> calls of the component, each with what it sends.\<close>

datatype request =
    GetDocuments
  | PostUpload js_file
  | DeleteDocument jsstring
  | PostAsk jsstring
  | PostVisualization visualization_request
  | PostRecommendations jsstring "jsstring list" "(jsstring \<times> jsstring) list"

text \<open>
  What a handler does to the world outside the component state: a request, a line on
  the error console, a write to the clipboard.
\<close>

datatype effect = Fetch request | ConsoleError | ClipboardWrite jsstring

text \<open>
  How an awaited \<^verbatim>\<open>fetch\<close> ends. \<open>Rejected\<close>: the promise rejects (no connection).
  \<open>Ok b\<close>: a response with \<^verbatim>\<open>res.ok\<close>; \<open>NotOk b\<close>: a response without. The body
  \<open>b\<close> is what \<^verbatim>\<open>res.json()\<close> yields, \<open>None\<close> when that call rejects.
\<close>

datatype ('a, 'e) reply = Rejected | Ok "'a option" | NotOk "'e option"

text \<open>The body of an answer: \<^verbatim>\<open>{answer, sources}\<close>.\<close>

record qa_response =
  answer :: jsstring
  qa_sources :: "source list option"

text \<open>The body of a visualization: \<^verbatim>\<open>{description, image_base64}\<close>.\<close>

record visualization_response =
  description :: "jsstring option"
  image_base64 :: "jsstring option"

text \<open>
  A handler runs up to its \<^verbatim>\<open>await fetch(...)\<close> and is resumed when the request
  settles. What the resumed part still holds of its closure is kept here: the file name
  of an upload, the id of a deletion, the prompt of a visualization.
\<close>

datatype pending =
    DocumentsPending
  | UploadPending jsstring
  | DeletePending jsstring
  | AskPending
  | VisualizationPending jsstring
  | RecommendationsPending


section \<open>String and array operations\<close>

text \<open>\<^verbatim>\<open>a || b\<close> on a possibly absent string: absent and empty strings are falsy.\<close>

definition falsy :: "jsstring option \<Rightarrow> bool" where
  "falsy v = (case v of None \<Rightarrow> True | Some s \<Rightarrow> s = [])"

definition or_else :: "jsstring option \<Rightarrow> jsstring \<Rightarrow> jsstring" where
  "or_else v d = (case v of None \<Rightarrow> d | Some s \<Rightarrow> if s = [] then d else s)"

text \<open>
  \<^verbatim>\<open>s.substring(a, b)\<close> for non-negative integer arguments: both are clamped to the
  length and swapped when out of order.
\<close>

definition substring :: "jsstring \<Rightarrow> nat \<Rightarrow> nat \<Rightarrow> jsstring" where
  "substring s a b =
     (let a' = min a (length s); b' = min b (length s);
          lo = min a' b'; hi = max a' b'
      in take (hi - lo) (drop lo s))"

text \<open>
  \<^verbatim>\<open>xs.slice(-n)\<close>: the start is \<open>max(len - n, 0)\<close>, the end is the length.
\<close>

definition slice_last :: "nat \<Rightarrow> 'a list \<Rightarrow> 'a list" where
  "slice_last n xs = drop (nat (max (int (length xs) - int n) 0)) xs"

text \<open>\<^verbatim>\<open>xs.join(sep)\<close> on an array of strings.\<close>

fun join :: "jsstring \<Rightarrow> jsstring list \<Rightarrow> jsstring" where
  "join sep [] = []"
| "join sep [x] = x"
| "join sep (x # y # ys) = x @ sep @ join sep (y # ys)"

text \<open>
  \<^verbatim>\<open>s.split(c)\<close> with a separator of one code unit: the pieces between the
  separators, \<open>[s]\<close> when there is none. \<open>split_acc\<close> carries the piece being read.
\<close>

fun split_acc :: "16 word \<Rightarrow> jsstring \<Rightarrow> jsstring \<Rightarrow> jsstring list" where
  "split_acc c acc [] = [acc]"
| "split_acc c acc (x # xs) =
     (if x = c then acc # split_acc c [] xs else split_acc c (acc @ [x]) xs)"

definition split :: "jsstring \<Rightarrow> 16 word \<Rightarrow> jsstring list" where
  "split s c = split_acc c [] s"

text \<open>\<^verbatim>\<open>xs.pop()\<close>, the value it returns: \<^verbatim>\<open>undefined\<close> on an empty array.\<close>

definition pop :: "'a list \<Rightarrow> 'a option" where
  "pop xs = (if xs = [] then None else Some (last xs))"

text \<open>
  \<^verbatim>\<open>s.toLowerCase()\<close> on the letters A to Z. Code units outside ASCII are left as
  they are: no character outside ASCII has a lower case among the letters of the four
  supported extensions, so the extension test below reads the same.
\<close>

definition lower :: "16 word \<Rightarrow> 16 word" where
  "lower c = (if 0x41 \<le> c \<and> c \<le> 0x5A then c + 0x20 else c)"

definition toLowerCase :: "jsstring \<Rightarrow> jsstring" where
  "toLowerCase s = map lower s"


section \<open>Text literals of the interface\<close>

text \<open>
  The Chinese literals of the source, as UTF-16 code units, each with a gloss.
\<close>

definition text_request_error :: jsstring where
  \<comment> \<open>"Sorry, an error occurred while processing the request:"\<close>
  "text_request_error =
     [0x62B1, 0x6B49, 0xFF0C, 0x5904, 0x7406, 0x8BF7, 0x6C42, 0x65F6, 0x51FA, 0x9519, 0xFF1A]"

definition text_unknown_error :: jsstring where
  \<comment> \<open>"unknown error"\<close>
  "text_unknown_error = [0x672A, 0x77E5, 0x9519, 0x8BEF]"

definition text_no_connection :: jsstring where
  \<comment> \<open>"Could not connect to the server, please check that the backend is running"\<close>
  "text_no_connection =
     [0x8FDE, 0x63A5, 0x670D, 0x52A1, 0x5668, 0x5931, 0x8D25, 0xFF0C, 0x8BF7, 0x68C0, 0x67E5,
      0x540E, 0x7AEF, 0x662F, 0x5426, 0x542F, 0x52A8]"

definition text_generate_label :: jsstring where
  \<comment> \<open>artist palette (U+1F3A8), space, "Generate diagram:"\<close>
  "text_generate_label = [0xD83C, 0xDFA8, 0x0020, 0x751F, 0x6210, 0x56FE, 0x89E3, 0xFF1A]"

definition text_generated_for :: "jsstring \<Rightarrow> jsstring" where
  \<comment> \<open>"A knowledge diagram has been generated for [prompt]"\<close>
  "text_generated_for p =
     [0x5DF2, 0x4E3A, 0x300C] @ p @ [0x300D, 0x751F, 0x6210, 0x77E5, 0x8BC6, 0x56FE, 0x89E3]"

definition text_image_failed :: jsstring where
  \<comment> \<open>"Sorry, image generation failed. Please try again later."\<close>
  "text_image_failed =
     [0x62B1, 0x6B49, 0xFF0C, 0x56FE, 0x50CF, 0x751F, 0x6210, 0x5931, 0x8D25, 0x3002, 0x8BF7,
      0x7A0D, 0x540E, 0x91CD, 0x8BD5, 0x3002]"

definition toast_image_ok :: jsstring where
  \<comment> \<open>"Image generated!"\<close>
  "toast_image_ok = [0x56FE, 0x50CF, 0x751F, 0x6210, 0x6210, 0x529F, 0xFF01]"

definition toast_image_failed :: jsstring where
  \<comment> \<open>"Image generation failed"\<close>
  "toast_image_failed = [0x56FE, 0x50CF, 0x751F, 0x6210, 0x5931, 0x8D25]"

definition toast_no_connection :: jsstring where
  \<comment> \<open>"Could not connect to the server"\<close>
  "toast_no_connection = [0x8FDE, 0x63A5, 0x670D, 0x52A1, 0x5668, 0x5931, 0x8D25]"

definition toast_deleted :: jsstring where
  \<comment> \<open>"Document deleted"\<close>
  "toast_deleted = [0x6587, 0x6863, 0x5DF2, 0x5220, 0x9664]"

definition toast_delete_failed :: jsstring where
  \<comment> \<open>"Deletion failed"\<close>
  "toast_delete_failed = [0x5220, 0x9664, 0x5931, 0x8D25]"

definition toast_renamed :: jsstring where
  \<comment> \<open>"Name updated"\<close>
  "toast_renamed = [0x540D, 0x79F0, 0x5DF2, 0x66F4, 0x65B0]"

definition toast_uploaded :: "jsstring \<Rightarrow> jsstring" where
  \<comment> \<open>"Document "[name]" uploaded!"\<close>
  "toast_uploaded n =
     [0x6587, 0x6863, 0x0020, 0x0022] @ n @ [0x0022, 0x0020, 0x4E0A, 0x4F20, 0x6210, 0x529F, 0xFF01]"

definition text_upload_failed :: jsstring where
  \<comment> \<open>"Upload failed"\<close>
  "text_upload_failed = [0x4E0A, 0x4F20, 0x5931, 0x8D25]"

definition toast_upload_network :: jsstring where
  \<comment> \<open>"Upload failed, please check the network connection"\<close>
  "toast_upload_network =
     [0x4E0A, 0x4F20, 0x5931, 0x8D25, 0xFF0C, 0x8BF7, 0x68C0, 0x67E5, 0x7F51, 0x7EDC, 0x8FDE, 0x63A5]"

definition text_from_content :: jsstring where
  \<comment> \<open>"Generate a knowledge diagram from the following content:"\<close>
  "text_from_content =
     [0x6839, 0x636E, 0x4EE5, 0x4E0B, 0x5185, 0x5BB9, 0x751F, 0x6210, 0x77E5, 0x8BC6, 0x56FE,
      0x89E3, 0xFF1A]"

definition suggestions :: "jsstring list" where
  \<comment> \<open>the four suggestions of the welcome screen\<close>
  "suggestions =
     [[0x8FD9, 0x4EFD, 0x6587, 0x6863, 0x7684, 0x4E3B, 0x8981, 0x5185, 0x5BB9, 0x662F, 0x4EC0,
       0x4E48, 0xFF1F],
      [0x5E2E, 0x6211, 0x603B, 0x7ED3, 0x4E00, 0x4E0B, 0x5173, 0x952E, 0x77E5, 0x8BC6, 0x70B9],
      [0x89E3, 0x91CA, 0x4E00, 0x4E0B, 0x8FD9, 0x4E2A, 0x6982, 0x5FF5],
      [0x751F, 0x6210, 0x590D, 0x4E60, 0x95EE, 0x9898]]"


section \<open>FileUpload: which files are handed to the upload handler\<close>

datatype js_error = TypeError

text \<open>
  \<^verbatim>\<open>handleFiles\<close> walks the files in order; for each it takes
  \<^verbatim>\<open>file.name.split('.').pop().toLowerCase()\<close> and calls \<^verbatim>\<open>onUpload(file)\<close>
  when that is one of the four listed strings. The result is the list of files
  \<^verbatim>\<open>onUpload\<close> was called with, in order, and the exception, if any, that ended
  the walk (a method call on \<^verbatim>\<open>undefined\<close>).
\<close>

fun handleFiles :: "js_file list \<Rightarrow> js_file list \<times> js_error option" where
  "handleFiles [] = ([], None)"
| "handleFiles (f # fs) =
     (case pop (split (name f) 0x2E) of
        None \<Rightarrow> ([], Some TypeError)
      | Some e \<Rightarrow>
          let ext = toLowerCase e
          in if ext \<in> set [js ''pdf'', js ''pptx'', js ''docx'', js ''txt'']
             then (case handleFiles fs of (ups, err) \<Rightarrow> (f # ups, err))
             else handleFiles fs)"


section \<open>App: the handlers\<close>

text \<open>
  Each asynchronous handler is given in two parts: the part that runs when it is called,
  up to its \<^verbatim>\<open>await fetch(...)\<close>, which returns the new state, the effects and what
  is left pending; and the part named \<open>_resume\<close> that runs when the request has
  settled, on the state of that moment (the setters are called with updater functions).
\<close>

definition showToast :: "jsstring \<Rightarrow> jsstring \<Rightarrow> nat \<Rightarrow> app \<Rightarrow> app" where
  "showToast message type now s =
     s\<lparr>toasts := toasts s @ [\<lparr>toast_id = now, toast_message = message, toast_type = type\<rparr>]\<rparr>"

definition removeToast :: "nat \<Rightarrow> app \<Rightarrow> app" where
  "removeToast i s = s\<lparr>toasts := filter (\<lambda>t. toast_id t \<noteq> i) (toasts s)\<rparr>"

definition fetchDocuments :: "app \<Rightarrow> app \<times> effect list \<times> pending list" where
  "fetchDocuments s = (s, [Fetch GetDocuments], [DocumentsPending])"

definition fetchDocuments_resume :: "(document list, unit) reply \<Rightarrow> app \<Rightarrow> app \<times> effect list" where
  "fetchDocuments_resume r s =
     (case r of
        Ok (Some docs) \<Rightarrow> (s\<lparr>documents := docs\<rparr>, [])
      | Ok None \<Rightarrow> (s, [ConsoleError])
      | NotOk _ \<Rightarrow> (s, [])
      | Rejected \<Rightarrow> (s, [ConsoleError]))"

definition handleUpload :: "js_file \<Rightarrow> app \<Rightarrow> app \<times> effect list \<times> pending list" where
  "handleUpload f s = (s\<lparr>isUploading := True\<rparr>, [Fetch (PostUpload f)], [UploadPending (name f)])"

definition handleUpload_resume ::
  "jsstring \<Rightarrow> (document, jsstring option) reply \<Rightarrow> nat \<Rightarrow> app \<Rightarrow> app \<times> effect list" where
  "handleUpload_resume file_name r now s =
     (let s' =
        (case r of
           Ok (Some doc) \<Rightarrow>
             showToast (toast_uploaded file_name) (js ''success'') now
               (s\<lparr>documents := documents s @ [doc],
                  displayNames := (displayNames s)(doc_id doc \<mapsto> file_name)\<rparr>)
         | NotOk (Some detail) \<Rightarrow>
             showToast (or_else detail text_upload_failed) (js ''error'') now s
         | _ \<Rightarrow> showToast toast_upload_network (js ''error'') now s)
      in (s'\<lparr>isUploading := False\<rparr>, []))"

definition handleDelete :: "jsstring \<Rightarrow> app \<Rightarrow> app \<times> effect list \<times> pending list" where
  "handleDelete docId s = (s, [Fetch (DeleteDocument docId)], [DeletePending docId])"

definition handleDelete_resume ::
  "jsstring \<Rightarrow> (unit, unit) reply \<Rightarrow> nat \<Rightarrow> app \<Rightarrow> app \<times> effect list" where
  "handleDelete_resume docId r now s =
     (case r of
        Ok _ \<Rightarrow>
          (showToast toast_deleted (js ''success'') now
             (s\<lparr>documents := filter (\<lambda>d. doc_id d \<noteq> docId) (documents s),
                displayNames := (displayNames s)(docId := None)\<rparr>), [])
      | NotOk _ \<Rightarrow> (s, [])
      | Rejected \<Rightarrow> (showToast toast_delete_failed (js ''error'') now s, []))"

definition handleRename :: "jsstring \<Rightarrow> jsstring \<Rightarrow> nat \<Rightarrow> app \<Rightarrow> app" where
  "handleRename docId newName now s =
     showToast toast_renamed (js ''success'') now
       (s\<lparr>displayNames := (displayNames s)(docId \<mapsto> newName)\<rparr>)"

definition handleSend :: "app \<Rightarrow> app \<times> effect list \<times> pending list" where
  "handleSend s =
     (if trim (inputValue s) = [] \<or> isLoading s then (s, [], [])
      else
        let userMessage =
              \<lparr>role = js ''user'', content = inputValue s, sources = None, imageBase64 = None\<rparr>
        in (s\<lparr>messages := messages s @ [userMessage], inputValue := [], isLoading := True\<rparr>,
            [Fetch (PostAsk (inputValue s))], [AskPending]))"

definition handleSend_resume ::
  "(qa_response, jsstring option) reply \<Rightarrow> app \<Rightarrow> app \<times> effect list" where
  "handleSend_resume r s =
     (let m =
        (case r of
           Ok (Some data) \<Rightarrow>
             \<lparr>role = js ''assistant'', content = answer data, sources = qa_sources data,
              imageBase64 = None\<rparr>
         | NotOk (Some detail) \<Rightarrow>
             \<lparr>role = js ''assistant'',
              content = text_request_error @ or_else detail text_unknown_error,
              sources = None, imageBase64 = None\<rparr>
         | _ \<Rightarrow>
             \<lparr>role = js ''assistant'', content = text_no_connection, sources = None,
              imageBase64 = None\<rparr>)
      in (s\<lparr>messages := messages s @ [m], isLoading := False\<rparr>, []))"

text \<open>
  What the resumed part of \<^verbatim>\<open>handleSend\<close> delivers to the message list: the
  contents of the messages it appends, in order.
\<close>

definition delivered :: "(qa_response, jsstring option) reply \<Rightarrow> app \<Rightarrow> jsstring list" where
  "delivered r s =
     map content (drop (length (messages s)) (messages (fst (handleSend_resume r s))))"

text \<open>
  The conversation history of a visualization request:
  \<^verbatim>\<open>messages.slice(-6).map(m => `${m.role}: ${m.content}`).join('\n')\<close>.
\<close>

definition conversationHistory :: "message list \<Rightarrow> jsstring" where
  "conversationHistory msgs =
     join [0x000A] (map (\<lambda>m. role m @ js '': '' @ content m) (slice_last 6 msgs))"

text \<open>
  \<^verbatim>\<open>handleGenerateImage(customPrompt = null)\<close>. The history is read from
  \<^verbatim>\<open>messages\<close> as the handler's closure holds it: the list without the user
  message appended a few lines above.
\<close>

definition handleGenerateImage ::
  "jsstring option \<Rightarrow> app \<Rightarrow> app \<times> effect list \<times> pending list" where
  "handleGenerateImage customPrompt s =
     (let p = or_else customPrompt (inputValue s) in
      if trim p = [] \<or> isLoading s then (s, [], [])
      else
        let userMessage =
              \<lparr>role = js ''user'',
               content = (if inputMode s = js ''image'' then text_generate_label @ p else p),
               sources = None, imageBase64 = None\<rparr>;
            s1 = s\<lparr>messages := messages s @ [userMessage]\<rparr>;
            s2 = (if falsy customPrompt then s1\<lparr>inputValue := []\<rparr> else s1);
            s3 = s2\<lparr>isLoading := True\<rparr>
        in (s3,
            [Fetch (PostVisualization
               \<lparr>prompt = p, style = imageStyle s,
                conversation_history = conversationHistory (messages s),
                aspect_ratio = js ''16:9''\<rparr>)],
            [VisualizationPending p]))"

text \<open>
  The resumed part reads the clock three times on success: for the id of the history
  entry, for its \<^verbatim>\<open>createdAt\<close> and for the id of the toast.
\<close>

definition handleGenerateImage_resume ::
  "jsstring \<Rightarrow> (visualization_response, unit) reply \<Rightarrow> nat \<Rightarrow> jsstring \<Rightarrow> nat \<Rightarrow> app
     \<Rightarrow> app \<times> effect list" where
  "handleGenerateImage_resume p r now_entry stamp now s =
     (let s' =
        (case r of
           Ok (Some data) \<Rightarrow>
             showToast toast_image_ok (js ''success'') now
               (s\<lparr>messages := messages s @
                    [\<lparr>role = js ''assistant'',
                      content = or_else (description data) (text_generated_for p),
                      sources = None, imageBase64 = image_base64 data\<rparr>],
                  imageHistory := imageHistory s @
                    [\<lparr>entry_id = now_entry, entry_prompt = p,
                      entry_imageBase64 = image_base64 data, createdAt = stamp\<rparr>]\<rparr>)
         | NotOk _ \<Rightarrow>
             showToast toast_image_failed (js ''error'') now
               (s\<lparr>messages := messages s @
                    [\<lparr>role = js ''assistant'', content = text_image_failed, sources = None,
                      imageBase64 = None\<rparr>]\<rparr>)
         | _ \<Rightarrow>
             showToast toast_no_connection (js ''error'') now
               (s\<lparr>messages := messages s @
                    [\<lparr>role = js ''assistant'', content = text_no_connection, sources = None,
                      imageBase64 = None\<rparr>]\<rparr>))
      in (s'\<lparr>isLoading := False\<rparr>, []))"

definition handleSubmit :: "app \<Rightarrow> app \<times> effect list \<times> pending list" where
  "handleSubmit s = (if inputMode s = js ''chat'' then handleSend s else handleGenerateImage None s)"

definition handleKeyPress :: "jsstring \<Rightarrow> bool \<Rightarrow> app \<Rightarrow> app \<times> effect list \<times> pending list" where
  "handleKeyPress key shiftKey s =
     (if key = js ''Enter'' \<and> \<not> shiftKey then handleSubmit s else (s, [], []))"

text \<open>The \<^verbatim>\<open>disabled\<close> attribute of the send button.\<close>

definition send_disabled :: "app \<Rightarrow> bool" where
  "send_disabled s \<longleftrightarrow> trim (inputValue s) = [] \<or> isLoading s"

definition handleShowRecommendations :: "app \<Rightarrow> app \<times> effect list \<times> pending list" where
  "handleShowRecommendations s =
     (if length (documents s) = 0
      then (s\<lparr>recommendations := [], showRecommendations := True\<rparr>, [], [])
      else
        let endpoint = (if inputMode s = js ''chat'' then js ''/recommendations/chat''
                        else js ''/recommendations/visualization'')
        in (s\<lparr>isLoadingRecommendations := True, showRecommendations := True\<rparr>,
            [Fetch (PostRecommendations endpoint (map doc_id (documents s))
               (map (\<lambda>m. (role m, content m)) (messages s)))],
            [RecommendationsPending]))"

definition handleShowRecommendations_resume ::
  "(recommendation list option, unit) reply \<Rightarrow> app \<Rightarrow> app \<times> effect list" where
  "handleShowRecommendations_resume r s =
     (case r of
        Ok (Some data) \<Rightarrow>
          (s\<lparr>recommendations := (case data of None \<Rightarrow> [] | Some topics \<Rightarrow> topics),
             isLoadingRecommendations := False\<rparr>, [])
      | _ \<Rightarrow> (s\<lparr>recommendations := [], isLoadingRecommendations := False\<rparr>, [ConsoleError]))"

definition handleSelectRecommendation :: "recommendation \<Rightarrow> app \<Rightarrow> app" where
  "handleSelectRecommendation rec s = s\<lparr>inputValue := rec_prompt rec, showRecommendations := False\<rparr>"

text \<open>
  The callback \<^verbatim>\<open>onGenerateFromContent\<close> given to every message: the prompt it
  builds, and the call it makes.
\<close>

definition content_prompt :: "jsstring \<Rightarrow> jsstring" where
  "content_prompt c = (let summary = substring c 0 2000 in text_from_content @ summary)"

definition onGenerateFromContent :: "jsstring \<Rightarrow> app \<Rightarrow> app \<times> effect list \<times> pending list" where
  "onGenerateFromContent c s = handleGenerateImage (Some (content_prompt c)) s"


section \<open>App: events and steps\<close>

text \<open>
  The component together with the requests in flight. An event is a user action on a
  rendered control, the mount effect, the timer of a toast, or the settling of the
  \<open>i\<close>-th request in flight. An event on a control that is not rendered or is disabled
  changes nothing.
\<close>

type_synonym system = "app \<times> pending list"

datatype outcome =
    DocumentsReply "(document list, unit) reply"
  | UploadReply "(document, jsstring option) reply" nat
  | DeleteReply "(unit, unit) reply" nat
  | AskReply "(qa_response, jsstring option) reply"
  | VisualizationReply "(visualization_response, unit) reply" nat jsstring nat
  | RecommendationsReply "(recommendation list option, unit) reply"

datatype event =
    Mount "(jsstring \<rightharpoonup> jsstring) option"
  | ToggleSidebar
  | SelectFiles "js_file list"
  | ClickDelete nat
  | SaveRename nat jsstring nat
  | ClickModeChat
  | ClickModeImage
  | ClickStyleMindmap
  | ClickStyleDiagram
  | ClickStyleEducational
  | ChangeInput jsstring
  | ClickSuggestion nat
  | ClickSend
  | KeyPress jsstring bool
  | ClickRecommend
  | CloseRecommendations
  | ClickRecommendation nat
  | ClickImage nat
  | ClosePreview
  | ClickCopy nat
  | ClickGenerate nat
  | ToastTimeout nat
  | Settle nat outcome

fun resume :: "pending \<Rightarrow> outcome \<Rightarrow> app \<Rightarrow> (app \<times> effect list) option" where
  "resume DocumentsPending (DocumentsReply r) s = Some (fetchDocuments_resume r s)"
| "resume (UploadPending n) (UploadReply r now) s = Some (handleUpload_resume n r now s)"
| "resume (DeletePending d) (DeleteReply r now) s = Some (handleDelete_resume d r now s)"
| "resume AskPending (AskReply r) s = Some (handleSend_resume r s)"
| "resume (VisualizationPending p) (VisualizationReply r now_entry stamp now) s =
     Some (handleGenerateImage_resume p r now_entry stamp now s)"
| "resume RecommendationsPending (RecommendationsReply r) s =
     Some (handleShowRecommendations_resume r s)"
| "resume _ _ _ = None"

text \<open>The calls of \<^verbatim>\<open>onUpload\<close> for a list of accepted files, one after the other.\<close>

fun upload_all :: "js_file list \<Rightarrow> app \<Rightarrow> app \<times> effect list \<times> pending list" where
  "upload_all [] s = (s, [], [])"
| "upload_all (f # fs) s =
     (case handleUpload f s of (s1, fx1, ps1) \<Rightarrow>
        (case upload_all fs s1 of (s2, fx2, ps2) \<Rightarrow> (s2, fx1 @ fx2, ps1 @ ps2)))"

definition started :: "pending list \<Rightarrow> app \<times> effect list \<times> pending list \<Rightarrow> system \<times> effect list" where
  "started ps r = (case r of (s, fx, new) \<Rightarrow> ((s, ps @ new), fx))"

definition still :: "pending list \<Rightarrow> app \<Rightarrow> system \<times> effect list" where
  "still ps s = ((s, ps), [])"

fun step :: "event \<Rightarrow> system \<Rightarrow> system \<times> effect list" where
  "step (Mount saved) (s, ps) =
     started ps
       (fetchDocuments (case saved of None \<Rightarrow> s | Some names \<Rightarrow> s\<lparr>displayNames := names\<rparr>))"
| "step ToggleSidebar (s, ps) = still ps (s\<lparr>sidebarCollapsed := \<not> sidebarCollapsed s\<rparr>)"
| "step (SelectFiles files) (s, ps) = started ps (upload_all (fst (handleFiles files)) s)"
| "step (ClickDelete i) (s, ps) =
     (if i < length (documents s) then started ps (handleDelete (doc_id (documents s ! i)) s)
      else still ps s)"
| "step (SaveRename i editValue now) (s, ps) =
     (if i < length (documents s) \<and> trim editValue \<noteq> []
      then still ps (handleRename (doc_id (documents s ! i)) (trim editValue) now s)
      else still ps s)"
| "step ClickModeChat (s, ps) = still ps (s\<lparr>inputMode := js ''chat''\<rparr>)"
| "step ClickModeImage (s, ps) = still ps (s\<lparr>inputMode := js ''image''\<rparr>)"
| "step ClickStyleMindmap (s, ps) =
     (if inputMode s = js ''image'' then still ps (s\<lparr>imageStyle := js ''mindmap''\<rparr>)
      else still ps s)"
| "step ClickStyleDiagram (s, ps) =
     (if inputMode s = js ''image'' then still ps (s\<lparr>imageStyle := js ''diagram''\<rparr>)
      else still ps s)"
| "step ClickStyleEducational (s, ps) =
     (if inputMode s = js ''image'' then still ps (s\<lparr>imageStyle := js ''educational''\<rparr>)
      else still ps s)"
| "step (ChangeInput v) (s, ps) = still ps (s\<lparr>inputValue := v\<rparr>)"
| "step (ClickSuggestion i) (s, ps) =
     (if length (messages s) = 0 \<and> i < length suggestions
      then still ps (s\<lparr>inputValue := suggestions ! i\<rparr>)
      else still ps s)"
| "step ClickSend (s, ps) =
     (if send_disabled s then still ps s else started ps (handleSubmit s))"
| "step (KeyPress key shiftKey) (s, ps) = started ps (handleKeyPress key shiftKey s)"
| "step ClickRecommend (s, ps) =
     (if isLoadingRecommendations s then still ps s
      else started ps (handleShowRecommendations s))"
| "step CloseRecommendations (s, ps) =
     (if showRecommendations s then still ps (s\<lparr>showRecommendations := False\<rparr>)
      else still ps s)"
| "step (ClickRecommendation i) (s, ps) =
     (if showRecommendations s \<and> \<not> isLoadingRecommendations s \<and> i < length (recommendations s)
      then still ps (handleSelectRecommendation (recommendations s ! i) s)
      else still ps s)"
| "step (ClickImage i) (s, ps) =
     (if i < length (messages s) \<and> \<not> falsy (imageBase64 (messages s ! i))
      then still ps (s\<lparr>previewImage := imageBase64 (messages s ! i)\<rparr>)
      else still ps s)"
| "step ClosePreview (s, ps) =
     (if \<not> falsy (previewImage s) then still ps (s\<lparr>previewImage := None\<rparr>) else still ps s)"
| "step (ClickCopy i) (s, ps) =
     (if i < length (messages s) \<and> role (messages s ! i) \<noteq> js ''user''
      then ((s, ps), [ClipboardWrite (content (messages s ! i))])
      else still ps s)"
| "step (ClickGenerate i) (s, ps) =
     (if i < length (messages s) \<and> role (messages s ! i) \<noteq> js ''user''
      then started ps (onGenerateFromContent (content (messages s ! i)) s)
      else still ps s)"
| "step (ToastTimeout i) (s, ps) = still ps (removeToast i s)"
| "step (Settle i out) (s, ps) =
     (if i < length ps then
        (case resume (ps ! i) out s of
           None \<Rightarrow> still ps s
         | Some (s', fx) \<Rightarrow> ((s', take i ps @ drop (Suc i) ps), fx))
      else still ps s)"

text \<open>A run of events from the initial state, and the states some run reaches.\<close>

fun run :: "event list \<Rightarrow> system \<Rightarrow> system" where
  "run [] sys = sys"
| "run (e # es) sys = run es (fst (step e sys))"

inductive reachable :: "system \<Rightarrow> bool" where
  initially: "reachable (initial, [])"
| after: "reachable sys \<Longrightarrow> reachable (fst (step e sys))"


section \<open>ChatMessage: the relevance badge\<close>

text \<open>
  The number rendered in front of the percent sign of a source's badge:
  \<^verbatim>\<open>Math.min(100, Math.round(source.relevance_score * 100))\<close>.
\<close>

definition badge :: "(real \<Rightarrow> jsnum) \<Rightarrow> source \<Rightarrow> jsnum" where
  "badge rnd src = Math_min (Fin 100) (Math_round (js_times rnd (relevance_score src) (Fin 100)))"

text \<open>
  The badges of one rendered message, in order. The source block is rendered only under
  \<^verbatim>\<open>message.sources && message.sources.length > 0\<close>.
\<close>

definition source_badges :: "(real \<Rightarrow> jsnum) \<Rightarrow> message \<Rightarrow> jsnum list" where
  "source_badges rnd m =
     (case sources m of
        None \<Rightarrow> []
      | Some ss \<Rightarrow> if length ss > 0 then map (badge rnd) ss else [])"


section \<open>Recommendation popup: the icon of a topic\<close>

text \<open>
  The chain of conditionals on \<^verbatim>\<open>rec.type\<close> in the recommendation list. The icons
  are emoji; each is given by its UTF-16 code units: globe with meridians (U+1F310),
  bookmark tabs (U+1F4D1), memo (U+1F4DD), question mark ornament (U+2753), graduation
  cap (U+1F393) and, as the last alternative, left-pointing magnifying glass (U+1F50D).
\<close>

definition rec_icon :: "jsstring \<Rightarrow> jsstring" where
  "rec_icon t =
     (if t = js ''overview'' then [0xD83C, 0xDF10]
      else if t = js ''chapter'' then [0xD83D, 0xDCD1]
      else if t = js ''summary'' then [0xD83D, 0xDCDD]
      else if t = js ''qa'' then [0x2753]
      else if t = js ''review'' then [0xD83C, 0xDF93]
      else [0xD83D, 0xDD0D])"


section \<open>Reference notions\<close>

text \<open>
  Three notions the properties are stated with. They are not taken from the code: they
  say in the plainest way what "the \<open>n\<close> most recent elements" of a list, "partial
  chunks" of an answer and "the final extension" of a file name are, so that the code
  can be compared with them.

  The \<open>n\<close> most recent elements of a list whose newest element is last: its last \<open>n\<close>
  elements in their order, all of them when there are fewer.
\<close>

definition most_recent :: "nat \<Rightarrow> 'a list \<Rightarrow> 'a list" where
  "most_recent n xs = rev (take n (rev xs))"

text \<open>
  An answer received as partial chunks rather than as one complete response: the chunks
  put together are the whole answer, and no chunk is the whole answer by itself.
\<close>

definition partial_chunks :: "jsstring list \<Rightarrow> jsstring \<Rightarrow> bool" where
  "partial_chunks chunks whole \<longleftrightarrow> concat chunks = whole \<and> list_all (\<lambda>c. c \<noteq> whole) chunks"

text \<open>
  The final extension of a file name: what follows its last dot. A name without a dot
  has no extension.
\<close>

definition final_extension :: "jsstring \<Rightarrow> jsstring option" where
  "final_extension n =
     (if 0x2E \<in> set n then Some (rev (takeWhile (\<lambda>c. c \<noteq> 0x2E) (rev n))) else None)"


section \<open>Properties\<close>

lemma Math_min_100_bounded: "\<not> exceeds (Math_min (Fin 100) v) (Fin 100)"
  by (cases v) simp_all

lemma badge_bounded: "\<not> exceeds (badge rnd src) (Fin 100)"
  unfolding badge_def by (rule Math_min_100_bounded)

text \<open>
  Claim C1. Every badge rendered for a source of a message is
  \<open>min(100, round(relevance_score * 100))\<close> of that source, and no rendered badge
  exceeds 100, whatever score the backend sent (finite, infinite or not a number) and
  however the product is rounded.
\<close>

theorem badge_clamped_to_100:
  "source_badges rnd m =
     map (\<lambda>src. Math_min (Fin 100) (Math_round (js_times rnd (relevance_score src) (Fin 100))))
       (case sources m of None \<Rightarrow> [] | Some ss \<Rightarrow> ss)
   \<and> list_all (\<lambda>b. \<not> exceeds b (Fin 100)) (source_badges rnd m)"
proof
  show "source_badges rnd m =
     map (\<lambda>src. Math_min (Fin 100) (Math_round (js_times rnd (relevance_score src) (Fin 100))))
       (case sources m of None \<Rightarrow> [] | Some ss \<Rightarrow> ss)"
    by (cases "sources m") (simp_all add: source_badges_def badge_def)
  show "list_all (\<lambda>b. \<not> exceeds b (Fin 100)) (source_badges rnd m)"
    by (cases "sources m") (auto simp: source_badges_def list_all_iff badge_bounded)
qed

text \<open>
  Claim C8. The icon is a total function of the type string: the five named types have
  five different icons, none of which is the fallback icon, and every other string
  (\<open>other\<close> included) gets the fallback icon.
\<close>

theorem rec_icon_total_mapping:
  "distinct (map rec_icon
      [js ''overview'', js ''chapter'', js ''summary'', js ''qa'', js ''review'', js ''other''])
   \<and> rec_icon (js ''other'') = [0xD83D, 0xDD0D]
   \<and> (\<forall>t. t \<notin> set [js ''overview'', js ''chapter'', js ''summary'', js ''qa'', js ''review'']
          \<longrightarrow> rec_icon t = [0xD83D, 0xDD0D])"
  by (simp add: rec_icon_def js_def)

theorem rec_icon_total_mapping_witness:
  "js ''glossary'' \<notin> set [js ''overview'', js ''chapter'', js ''summary'', js ''qa'', js ''review'']
   \<and> rec_icon (js ''glossary'') = [0xD83D, 0xDD0D]"
  using rec_icon_total_mapping by (simp add: js_def)

subsection \<open>Recommendations on an empty knowledge base\<close>

text \<open>
  Claim C2. With an empty document list the recommendations action sets the topics to
  the empty list and opens the popup; it has no effect outside the state (no request, no
  line on the error console), leaves nothing pending, and changes no other part of the
  state.
\<close>

theorem empty_corpus_recommendations:
  assumes "documents s = []"
  shows "handleShowRecommendations s =
           (s\<lparr>recommendations := [], showRecommendations := True\<rparr>, [], [])"
  using assms by (simp add: handleShowRecommendations_def)

theorem empty_corpus_recommendations_witness:
  "documents initial = []
   \<and> handleShowRecommendations initial =
       (initial\<lparr>recommendations := [], showRecommendations := True\<rparr>, [], [])"
proof -
  have h: "documents initial = []" by (simp add: initial_def)
  show ?thesis using h empty_corpus_recommendations [OF h] by simp
qed


subsection \<open>How an answer arrives\<close>

text \<open>Whatever the reply, the resumed part of \<^verbatim>\<open>handleSend\<close> appends exactly one message.\<close>

lemma handleSend_resume_appends_one:
  "\<exists>m. messages (fst (handleSend_resume r s)) = messages s @ [m]"
  by (simp add: handleSend_resume_def Let_def)

text \<open>
  Claim C3 as stated fails on the code. The question \<open>hi\<close> is sent; while the request
  is in flight the message list holds the question only; when the reply with the answer
  \<open>ab\<close> has settled, the list holds the question and one assistant message with the
  whole answer, and nothing is pending any more. What is delivered is the one piece
  \<open>ab\<close>: a single complete response, not partial chunks.
\<close>

theorem handleSend_single_delivery:
  "messages (fst (run [ChangeInput (js ''hi''), ClickSend] (initial, []))) =
     [\<lparr>role = js ''user'', content = js ''hi'', sources = None, imageBase64 = None\<rparr>]
   \<and> snd (run [ChangeInput (js ''hi''), ClickSend] (initial, [])) = [AskPending]
   \<and> messages (fst (run [ChangeInput (js ''hi''), ClickSend,
        Settle 0 (AskReply (Ok (Some \<lparr>answer = js ''ab'', qa_sources = Some []\<rparr>)))] (initial, []))) =
     [\<lparr>role = js ''user'', content = js ''hi'', sources = None, imageBase64 = None\<rparr>,
      \<lparr>role = js ''assistant'', content = js ''ab'', sources = Some [], imageBase64 = None\<rparr>]
   \<and> snd (run [ChangeInput (js ''hi''), ClickSend,
        Settle 0 (AskReply (Ok (Some \<lparr>answer = js ''ab'', qa_sources = Some []\<rparr>)))] (initial, [])) = []
   \<and> delivered (Ok (Some \<lparr>answer = js ''ab'', qa_sources = Some []\<rparr>))
        (fst (run [ChangeInput (js ''hi''), ClickSend] (initial, []))) = [js ''ab'']
   \<and> \<not> partial_chunks
        (delivered (Ok (Some \<lparr>answer = js ''ab'', qa_sources = Some []\<rparr>))
           (fst (run [ChangeInput (js ''hi''), ClickSend] (initial, []))))
        (js ''ab'')"
  by (simp add: initial_def still_def started_def send_disabled_def handleSubmit_def handleSend_def
      handleSend_resume_def delivered_def partial_chunks_def trim_def isWhiteSpace_def js_def
      Let_def)

text \<open>
  Claim C3, amended. The answer is delivered as a single complete response. A send that
  passes the guard appends the question only, and sends one request with it. When the
  request has settled with success, the resumed part appends exactly one assistant
  message, whose content is the complete answer, and has no further effect; so what is
  delivered is the one piece that is the answer, and its concatenation is the answer.
  Whatever the reply, exactly one message is delivered.
\<close>

theorem handleSend_delivers_whole_answer:
  "(trim (inputValue s) \<noteq> [] \<and> \<not> isLoading s \<longrightarrow>
      handleSend s =
        (s\<lparr>messages := messages s @
              [\<lparr>role = js ''user'', content = inputValue s, sources = None, imageBase64 = None\<rparr>],
           inputValue := [], isLoading := True\<rparr>,
         [Fetch (PostAsk (inputValue s))], [AskPending]))
   \<and> handleSend_resume (Ok (Some data)) s =
        (s\<lparr>messages := messages s @
              [\<lparr>role = js ''assistant'', content = answer data, sources = qa_sources data,
                imageBase64 = None\<rparr>],
           isLoading := False\<rparr>, [])
   \<and> delivered (Ok (Some data)) s = [answer data]
   \<and> concat (delivered (Ok (Some data)) s) = answer data
   \<and> length (delivered r s) = 1"
  by (simp add: handleSend_def handleSend_resume_def delivered_def Let_def)

theorem handleSend_delivers_whole_answer_witness:
  "trim (inputValue (initial\<lparr>inputValue := js ''hi''\<rparr>)) \<noteq> []
   \<and> \<not> isLoading (initial\<lparr>inputValue := js ''hi''\<rparr>)
   \<and> handleSend (initial\<lparr>inputValue := js ''hi''\<rparr>) =
        (initial\<lparr>inputValue := js ''hi'',
           messages :=
              [\<lparr>role = js ''user'', content = js ''hi'', sources = None, imageBase64 = None\<rparr>],
           inputValue := [], isLoading := True\<rparr>,
         [Fetch (PostAsk (js ''hi''))], [AskPending])
   \<and> delivered (Ok (Some \<lparr>answer = js ''ab'', qa_sources = Some []\<rparr>))
        (initial\<lparr>inputValue := js ''hi''\<rparr>) = [js ''ab'']"
proof -
  have h1: "trim (inputValue (initial\<lparr>inputValue := js ''hi''\<rparr>)) \<noteq> []"
    by (simp add: trim_def isWhiteSpace_def js_def)
  have h2: "\<not> isLoading (initial\<lparr>inputValue := js ''hi''\<rparr>)"
    by (simp add: initial_def)
  show ?thesis
    using h1 h2
      handleSend_delivers_whole_answer
        [of "initial\<lparr>inputValue := js ''hi''\<rparr>" "\<lparr>answer = js ''ab'', qa_sources = Some []\<rparr>"]
    by (simp add: initial_def)
qed


subsection \<open>Visualization requests\<close>

lemma handleGenerateImage_request:
  assumes "Fetch (PostVisualization r) \<in> set (fst (snd (handleGenerateImage customPrompt s)))"
  shows "r = \<lparr>prompt = or_else customPrompt (inputValue s), style = imageStyle s,
               conversation_history = conversationHistory (messages s),
               aspect_ratio = js ''16:9''\<rparr>"
  using assms by (simp add: handleGenerateImage_def Let_def split: if_splits)

lemma handleGenerateImage_imageStyle:
  "imageStyle (fst (handleGenerateImage customPrompt s)) = imageStyle s"
  by (simp add: handleGenerateImage_def Let_def)

lemma handleSend_no_visualization:
  "Fetch (PostVisualization r) \<notin> set (fst (snd (handleSend s)))"
  by (simp add: handleSend_def Let_def)

lemma handleSend_imageStyle: "imageStyle (fst (handleSend s)) = imageStyle s"
  by (simp add: handleSend_def Let_def)

lemma handleSubmit_imageStyle: "imageStyle (fst (handleSubmit s)) = imageStyle s"
  by (simp add: handleSubmit_def handleSend_imageStyle handleGenerateImage_imageStyle)

lemma handleSubmit_request:
  assumes "Fetch (PostVisualization r) \<in> set (fst (snd (handleSubmit s)))"
  shows "style r = imageStyle s \<and> aspect_ratio r = js ''16:9''"
  using assms handleGenerateImage_request [of r None s] handleSend_no_visualization [of r s]
  by (auto simp: handleSubmit_def split: if_splits)

lemma upload_all_imageStyle: "imageStyle (fst (upload_all fs s)) = imageStyle s"
proof (induction fs arbitrary: s)
  case Nil
  show ?case by simp
next
  case (Cons f fs)
  have "imageStyle (fst (upload_all fs (s\<lparr>isUploading := True\<rparr>))) = imageStyle s"
    using Cons [of "s\<lparr>isUploading := True\<rparr>"] by simp
  then show ?case
    by (cases "upload_all fs (s\<lparr>isUploading := True\<rparr>)") (simp add: handleUpload_def)
qed

lemma upload_all_no_visualization:
  "Fetch (PostVisualization r) \<notin> set (fst (snd (upload_all fs s)))"
proof (induction fs arbitrary: s)
  case Nil
  show ?case by simp
next
  case (Cons f fs)
  then show ?case using Cons [of "s\<lparr>isUploading := True\<rparr>"]
    by (cases "upload_all fs (s\<lparr>isUploading := True\<rparr>)") (simp add: handleUpload_def)
qed

lemma handleShowRecommendations_imageStyle:
  "imageStyle (fst (handleShowRecommendations s)) = imageStyle s"
  by (simp add: handleShowRecommendations_def Let_def)

lemma handleShowRecommendations_no_visualization:
  "Fetch (PostVisualization r) \<notin> set (fst (snd (handleShowRecommendations s)))"
  by (simp add: handleShowRecommendations_def Let_def)

lemma resume_imageStyle:
  "resume p out s = Some (s', fx) \<Longrightarrow> imageStyle s' = imageStyle s"
  by (cases "(p, out, s)" rule: resume.cases)
     (auto simp: fetchDocuments_resume_def handleUpload_resume_def handleDelete_resume_def
        handleSend_resume_def handleGenerateImage_resume_def handleShowRecommendations_resume_def
        showToast_def Let_def split: reply.splits option.splits)

lemma resume_no_fetch:
  "resume p out s = Some (s', fx) \<Longrightarrow> Fetch q \<notin> set fx"
  by (cases "(p, out, s)" rule: resume.cases)
     (auto simp: fetchDocuments_resume_def handleUpload_resume_def handleDelete_resume_def
        handleSend_resume_def handleGenerateImage_resume_def handleShowRecommendations_resume_def
        showToast_def Let_def split: reply.splits option.splits)

lemma started_fst: "fst (fst (started ps r)) = fst r"
  by (cases r) (simp add: started_def)

lemma started_snd: "snd (started ps r) = fst (snd r)"
  by (cases r) (simp add: started_def)

text \<open>Every step keeps the style among the three values.\<close>

lemma step_imageStyle:
  assumes "imageStyle s \<in> {js ''mindmap'', js ''diagram'', js ''educational''}"
  shows "imageStyle (fst (fst (step e (s, ps)))) \<in> {js ''mindmap'', js ''diagram'', js ''educational''}"
proof (cases e)
  case (Settle i out)
  then show ?thesis using assms
    by (auto simp: still_def split: option.splits dest: resume_imageStyle)
qed (use assms in \<open>auto simp: started_fst still_def
      fetchDocuments_def upload_all_imageStyle handleDelete_def handleRename_def showToast_def
      handleSubmit_imageStyle handleKeyPress_def handleShowRecommendations_imageStyle
      handleSelectRecommendation_def onGenerateFromContent_def handleGenerateImage_imageStyle
      removeToast_def split: option.splits\<close>)

lemma reachable_imageStyle:
  "reachable sys \<Longrightarrow> imageStyle (fst sys) \<in> {js ''mindmap'', js ''diagram'', js ''educational''}"
proof (induction rule: reachable.induct)
  case initially
  show ?case by (simp add: initial_def)
next
  case (after sys e)
  then show ?case using step_imageStyle [of "fst sys" e "snd sys"] by simp
qed

text \<open>A visualization request of a step carries the style of the state it starts from.\<close>

lemma step_request:
  assumes "Fetch (PostVisualization r) \<in> set (snd (step e (s, ps)))"
  shows "style r = imageStyle s \<and> aspect_ratio r = js ''16:9''"
proof (cases e)
  case (Settle i out)
  then show ?thesis using assms
    by (auto simp: still_def split: option.splits if_splits dest: resume_no_fetch)
next
  case ClickSend
  then show ?thesis using assms handleSubmit_request [of r s]
    by (auto simp: still_def started_snd split: if_splits)
next
  case (KeyPress k sh)
  then show ?thesis using assms handleSubmit_request [of r s]
    by (auto simp: still_def started_snd handleKeyPress_def split: if_splits)
next
  case (ClickGenerate i)
  then show ?thesis
    using assms
      handleGenerateImage_request [of r "Some (content_prompt (content (messages s ! i)))" s]
    by (auto simp: still_def started_snd onGenerateFromContent_def split: if_splits)
qed (use assms in \<open>auto simp: started_snd still_def fetchDocuments_def
      upload_all_no_visualization handleDelete_def handleShowRecommendations_no_visualization
      split: option.splits if_splits\<close>)

lemma reachable_run: "reachable sys \<Longrightarrow> reachable (run es sys)"
  by (induction es arbitrary: sys) (simp_all add: reachable.after)

text \<open>
  Claim C4. In every state the component can reach from its initial state, whatever the
  events and the replies, a visualization request sent by a step is a record of the four
  fields \<open>prompt\<close>, \<open>style\<close>, \<open>conversation_history\<close>, \<open>aspect_ratio\<close> whose style is the
  style of the state, one of \<open>mindmap\<close>, \<open>diagram\<close>, \<open>educational\<close>, and whose aspect
  ratio is \<open>16:9\<close>.
\<close>

theorem visualization_request_shape:
  assumes "reachable sys" and "Fetch (PostVisualization r) \<in> set (snd (step e sys))"
  shows "style r = imageStyle (fst sys)
         \<and> style r \<in> {js ''mindmap'', js ''diagram'', js ''educational''}
         \<and> aspect_ratio r = js ''16:9''"
  using reachable_imageStyle [OF assms(1)] step_request [of r e "fst sys" "snd sys"] assms(2)
  by simp

theorem visualization_request_shape_witness:
  "reachable (run [ClickModeImage, ClickStyleDiagram, ChangeInput (js ''cells'')] (initial, []))
   \<and> Fetch (PostVisualization
        \<lparr>prompt = js ''cells'', style = js ''diagram'', conversation_history = [],
         aspect_ratio = js ''16:9''\<rparr>)
      \<in> set (snd (step ClickSend
           (run [ClickModeImage, ClickStyleDiagram, ChangeInput (js ''cells'')] (initial, []))))
   \<and> style \<lparr>prompt = js ''cells'', style = js ''diagram'', conversation_history = [],
         aspect_ratio = js ''16:9''\<rparr> \<in> {js ''mindmap'', js ''diagram'', js ''educational''}"
proof -
  let ?sys = "run [ClickModeImage, ClickStyleDiagram, ChangeInput (js ''cells'')] (initial, [])"
  let ?r = "\<lparr>prompt = js ''cells'', style = js ''diagram'', conversation_history = [],
             aspect_ratio = js ''16:9''\<rparr>"
  have h1: "reachable ?sys"
    by (rule reachable_run [OF reachable.initially])
  have h2: "Fetch (PostVisualization ?r) \<in> set (snd (step ClickSend ?sys))"
    by (simp add: initial_def still_def started_def send_disabled_def handleSubmit_def
        handleGenerateImage_def conversationHistory_def slice_last_def or_else_def falsy_def
        trim_def isWhiteSpace_def js_def Let_def)
  from visualization_request_shape [OF h1 h2] h1 h2 show ?thesis by simp
qed

subsection \<open>The conversation history of a visualization request\<close>

lemma slice_last_drop: "slice_last n xs = drop (length xs - n) xs"
  by (simp add: slice_last_def nat_diff_distrib' max_def)

lemma slice_last_most_recent: "slice_last n xs = most_recent n xs"
  by (simp add: slice_last_drop most_recent_def rev_take)

lemma slice_last_append:
  "n \<le> length recent \<Longrightarrow> slice_last n (older @ recent) = slice_last n recent"
  by (simp add: slice_last_drop)

lemma most_recent_length: "length (most_recent n xs) \<le> n"
  by (simp add: most_recent_def)

lemma most_recent_suffix: "\<exists>older. xs = older @ most_recent n xs"
proof
  show "xs = take (length xs - n) xs @ most_recent n xs"
    by (simp add: slice_last_most_recent [symmetric] slice_last_drop)
qed

text \<open>
  Claim C5. The conversation history of a visualization request is the text of the 6
  most recent messages of the message list the handler reads (all of them when there are
  fewer), each as \<open>role: content\<close>, joined by newlines. The window has at most 6
  messages and is the end of the list; whenever the list splits into older messages and
  at least 6 recent ones, the history is that of the recent ones alone, so that no older
  message contributes to it.
\<close>

theorem conversation_history_window:
  assumes "Fetch (PostVisualization r) \<in> set (fst (snd (handleGenerateImage customPrompt s)))"
  shows "conversation_history r =
           join [0x000A] (map (\<lambda>m. role m @ js '': '' @ content m) (most_recent 6 (messages s)))
         \<and> length (most_recent 6 (messages s)) \<le> 6
         \<and> (\<exists>older. messages s = older @ most_recent 6 (messages s))
         \<and> (\<forall>older recent. messages s = older @ recent \<and> 6 \<le> length recent
               \<longrightarrow> conversation_history r = conversationHistory recent)"
proof -
  have r: "conversation_history r = conversationHistory (messages s)"
    using handleGenerateImage_request [OF assms] by simp
  have 1: "conversation_history r =
           join [0x000A] (map (\<lambda>m. role m @ js '': '' @ content m) (most_recent 6 (messages s)))"
    by (simp add: r conversationHistory_def slice_last_most_recent)
  have 4: "\<forall>older recent. messages s = older @ recent \<and> 6 \<le> length recent
               \<longrightarrow> conversation_history r = conversationHistory recent"
    by (auto simp: r conversationHistory_def slice_last_append)
  show ?thesis using 1 4 most_recent_length [of 6 "messages s"] most_recent_suffix [of "messages s" 6]
    by blast
qed

theorem conversation_history_window_witness:
  "Fetch (PostVisualization
      \<lparr>prompt = js ''g'', style = js ''mindmap'',
       conversation_history = js ''user: b'' @ [0x000A] @ js ''assistant: c'' @ [0x000A] @
         js ''user: d'' @ [0x000A] @ js ''assistant: e'' @ [0x000A] @ js ''user: f'' @ [0x000A] @
         js ''assistant: g'',
       aspect_ratio = js ''16:9''\<rparr>)
     \<in> set (fst (snd (handleGenerateImage (Some (js ''g''))
          (initial\<lparr>messages :=
             [\<lparr>role = js ''user'', content = js ''a'', sources = None, imageBase64 = None\<rparr>,
              \<lparr>role = js ''user'', content = js ''b'', sources = None, imageBase64 = None\<rparr>,
              \<lparr>role = js ''assistant'', content = js ''c'', sources = None, imageBase64 = None\<rparr>,
              \<lparr>role = js ''user'', content = js ''d'', sources = None, imageBase64 = None\<rparr>,
              \<lparr>role = js ''assistant'', content = js ''e'', sources = None, imageBase64 = None\<rparr>,
              \<lparr>role = js ''user'', content = js ''f'', sources = None, imageBase64 = None\<rparr>,
              \<lparr>role = js ''assistant'', content = js ''g'', sources = None, imageBase64 = None\<rparr>]\<rparr>))))
   \<and> length (most_recent 6 
             [\<lparr>role = js ''user'', content = js ''a'', sources = None, imageBase64 = None\<rparr>,
              \<lparr>role = js ''user'', content = js ''b'', sources = None, imageBase64 = None\<rparr>,
              \<lparr>role = js ''assistant'', content = js ''c'', sources = None, imageBase64 = None\<rparr>,
              \<lparr>role = js ''user'', content = js ''d'', sources = None, imageBase64 = None\<rparr>,
              \<lparr>role = js ''assistant'', content = js ''e'', sources = None, imageBase64 = None\<rparr>,
              \<lparr>role = js ''user'', content = js ''f'', sources = None, imageBase64 = None\<rparr>,
              \<lparr>role = js ''assistant'', content = js ''g'', sources = None, imageBase64 = None\<rparr>]) \<le> 6"
proof -
  let ?ms = "[\<lparr>role = js ''user'', content = js ''a'', sources = None, imageBase64 = None\<rparr>,
              \<lparr>role = js ''user'', content = js ''b'', sources = None, imageBase64 = None\<rparr>,
              \<lparr>role = js ''assistant'', content = js ''c'', sources = None, imageBase64 = None\<rparr>,
              \<lparr>role = js ''user'', content = js ''d'', sources = None, imageBase64 = None\<rparr>,
              \<lparr>role = js ''assistant'', content = js ''e'', sources = None, imageBase64 = None\<rparr>,
              \<lparr>role = js ''user'', content = js ''f'', sources = None, imageBase64 = None\<rparr>,
              \<lparr>role = js ''assistant'', content = js ''g'', sources = None, imageBase64 = None\<rparr>]"
  let ?r = "\<lparr>prompt = js ''g'', style = js ''mindmap'',
       conversation_history = js ''user: b'' @ [0x000A] @ js ''assistant: c'' @ [0x000A] @
         js ''user: d'' @ [0x000A] @ js ''assistant: e'' @ [0x000A] @ js ''user: f'' @ [0x000A] @
         js ''assistant: g'',
       aspect_ratio = js ''16:9''\<rparr>"
  have h: "Fetch (PostVisualization ?r)
     \<in> set (fst (snd (handleGenerateImage (Some (js ''g'')) (initial\<lparr>messages := ?ms\<rparr>))))"
    by (simp add: initial_def handleGenerateImage_def conversationHistory_def slice_last_def
        or_else_def falsy_def trim_def isWhiteSpace_def js_def Let_def)
  from conversation_history_window [OF h] h show ?thesis by simp
qed


subsection \<open>Deleting a document\<close>

text \<open>
  Claim C6. When the delete request for \<open>d\<close> is answered with success, the document
  list is the old list without the documents of id \<open>d\<close> (so no document of that id is
  left and every other document is kept as it was, in order), the display names have no
  entry for \<open>d\<close> and every other entry is as before. When the request fails, by a
  response without success or by a rejected request, the document list and the
  display names are unchanged.
\<close>

theorem handleDelete_postcondition_and_frame:
  "(\<forall>x \<in> set (documents (fst (handleDelete_resume d (Ok b) now s))). doc_id x \<noteq> d)
   \<and> displayNames (fst (handleDelete_resume d (Ok b) now s)) d = None
   \<and> documents (fst (handleDelete_resume d (Ok b) now s)) =
       filter (\<lambda>x. doc_id x \<noteq> d) (documents s)
   \<and> (\<forall>k. k \<noteq> d \<longrightarrow>
         displayNames (fst (handleDelete_resume d (Ok b) now s)) k = displayNames s k)
   \<and> (r = Rejected \<or> r = NotOk e \<longrightarrow>
         documents (fst (handleDelete_resume d r now s)) = documents s
         \<and> displayNames (fst (handleDelete_resume d r now s)) = displayNames s)"
  by (auto simp: handleDelete_resume_def showToast_def)

theorem handleDelete_postcondition_and_frame_witness:
  "documents (fst (handleDelete_resume (js ''d1'') (Ok None) 7
      (initial\<lparr>documents :=
          [\<lparr>doc_id = js ''d1'', filename = js ''a.pdf'', file_type = js ''pdf'', chunk_count = 3\<rparr>,
           \<lparr>doc_id = js ''d2'', filename = js ''b.txt'', file_type = js ''txt'', chunk_count = 1\<rparr>],
         displayNames := [js ''d1'' \<mapsto> js ''A'', js ''d2'' \<mapsto> js ''B'']\<rparr>))) =
     [\<lparr>doc_id = js ''d2'', filename = js ''b.txt'', file_type = js ''txt'', chunk_count = 1\<rparr>]
   \<and> displayNames (fst (handleDelete_resume (js ''d1'') (Ok None) 7
      (initial\<lparr>documents :=
          [\<lparr>doc_id = js ''d1'', filename = js ''a.pdf'', file_type = js ''pdf'', chunk_count = 3\<rparr>,
           \<lparr>doc_id = js ''d2'', filename = js ''b.txt'', file_type = js ''txt'', chunk_count = 1\<rparr>],
         displayNames := [js ''d1'' \<mapsto> js ''A'', js ''d2'' \<mapsto> js ''B'']\<rparr>))) (js ''d1'') = None
   \<and> displayNames (fst (handleDelete_resume (js ''d1'') (Ok None) 7
      (initial\<lparr>documents :=
          [\<lparr>doc_id = js ''d1'', filename = js ''a.pdf'', file_type = js ''pdf'', chunk_count = 3\<rparr>,
           \<lparr>doc_id = js ''d2'', filename = js ''b.txt'', file_type = js ''txt'', chunk_count = 1\<rparr>],
         displayNames := [js ''d1'' \<mapsto> js ''A'', js ''d2'' \<mapsto> js ''B'']\<rparr>))) (js ''d2'') = Some (js ''B'')
   \<and> documents (fst (handleDelete_resume (js ''d1'') Rejected 7
      (initial\<lparr>documents :=
          [\<lparr>doc_id = js ''d1'', filename = js ''a.pdf'', file_type = js ''pdf'', chunk_count = 3\<rparr>,
           \<lparr>doc_id = js ''d2'', filename = js ''b.txt'', file_type = js ''txt'', chunk_count = 1\<rparr>],
         displayNames := [js ''d1'' \<mapsto> js ''A'', js ''d2'' \<mapsto> js ''B'']\<rparr>))) =
     [\<lparr>doc_id = js ''d1'', filename = js ''a.pdf'', file_type = js ''pdf'', chunk_count = 3\<rparr>,
      \<lparr>doc_id = js ''d2'', filename = js ''b.txt'', file_type = js ''txt'', chunk_count = 1\<rparr>]"
proof -
  let ?s = "initial\<lparr>documents :=
          [\<lparr>doc_id = js ''d1'', filename = js ''a.pdf'', file_type = js ''pdf'', chunk_count = 3\<rparr>,
           \<lparr>doc_id = js ''d2'', filename = js ''b.txt'', file_type = js ''txt'', chunk_count = 1\<rparr>],
         displayNames := [js ''d1'' \<mapsto> js ''A'', js ''d2'' \<mapsto> js ''B'']\<rparr>"
  have ne: "js ''d2'' \<noteq> js ''d1''" by (simp add: js_def)
  show ?thesis
    using ne handleDelete_postcondition_and_frame [of "js ''d1''" None 7 ?s Rejected]
    by (simp add: js_def)
qed


subsection \<open>Which files are uploaded\<close>

lemma split_acc_nonempty: "split_acc c acc xs \<noteq> []"
  by (induction xs arbitrary: acc) simp_all

lemma split_acc_last:
  "last (split_acc c acc xs) =
     (if c \<in> set xs then rev (takeWhile (\<lambda>x. x \<noteq> c) (rev xs)) else acc @ xs)"
proof (induction xs arbitrary: acc)
  case Nil
  show ?case by simp
next
  case (Cons x xs)
  show ?case
  proof (cases "x = c")
    case True
    then show ?thesis
      by (simp add: Cons split_acc_nonempty takeWhile_append)
  next
    case False
    then show ?thesis
      by (auto simp: Cons takeWhile_append)
  qed
qed

text \<open>
  What \<^verbatim>\<open>name.split('.').pop()\<close> is: the final extension when the name has a dot,
  and the whole name when it has none. It is never \<^verbatim>\<open>undefined\<close>.
\<close>

lemma pop_split:
  "pop (split n 0x2E) = Some (case final_extension n of None \<Rightarrow> n | Some e \<Rightarrow> e)"
  by (simp add: pop_def split_def split_acc_nonempty split_acc_last final_extension_def)

text \<open>
  So \<^verbatim>\<open>handleFiles\<close> never throws, and it hands over exactly the files whose
  lower-cased final extension, or whose lower-cased whole name when there is no dot in it,
  is one of the four strings.
\<close>

lemma handleFiles_filter:
  "handleFiles fs =
     (filter (\<lambda>f. toLowerCase (case final_extension (name f) of None \<Rightarrow> name f | Some e \<Rightarrow> e)
                  \<in> set [js ''pdf'', js ''pptx'', js ''docx'', js ''txt'']) fs, None)"
  by (induction fs) (simp_all add: pop_split Let_def del: set_simps)

text \<open>
  Claim C7, evaluated on the code. A file named \<open>pdf\<close> has no dot in its name and so no
  extension, and it is handed to the upload handler.
\<close>

theorem handleFiles_uploads_name_without_extension:
  "handleFiles [\<lparr>name = js ''pdf'', bytes = []\<rparr>] = ([\<lparr>name = js ''pdf'', bytes = []\<rparr>], None)
   \<and> final_extension (js ''pdf'') = None"
  by (simp add: pop_def split_def toLowerCase_def lower_def js_def final_extension_def)


subsection \<open>The guard on blank input and on a request in flight\<close>

text \<open>
  Claim C9. When the trimmed input is empty or a request is loading, sending, generating
  an image without a custom prompt, and submitting in either mode all return the state
  as it was (the message list with it), with no effect and nothing pending; and the send
  button is disabled.
\<close>

theorem blank_or_loading_guard:
  assumes "trim (inputValue s) = [] \<or> isLoading s"
  shows "handleSend s = (s, [], []) \<and> handleGenerateImage None s = (s, [], [])
         \<and> handleSubmit s = (s, [], []) \<and> send_disabled s"
  using assms
  by (auto simp: handleSend_def handleGenerateImage_def handleSubmit_def send_disabled_def
      or_else_def)

theorem blank_or_loading_guard_witness:
  "trim (inputValue (initial\<lparr>inputValue := js ''  ''\<rparr>)) = []
   \<and> handleSend (initial\<lparr>inputValue := js ''  ''\<rparr>) = (initial\<lparr>inputValue := js ''  ''\<rparr>, [], [])
   \<and> handleGenerateImage None (initial\<lparr>inputValue := js ''  ''\<rparr>) =
       (initial\<lparr>inputValue := js ''  ''\<rparr>, [], [])
   \<and> send_disabled (initial\<lparr>inputValue := js ''  ''\<rparr>)
   \<and> isLoading (initial\<lparr>inputValue := js ''why'', isLoading := True\<rparr>)
   \<and> handleSend (initial\<lparr>inputValue := js ''why'', isLoading := True\<rparr>) =
       (initial\<lparr>inputValue := js ''why'', isLoading := True\<rparr>, [], [])"
proof -
  have h1: "trim (inputValue (initial\<lparr>inputValue := js ''  ''\<rparr>)) = []"
    by (simp add: trim_def isWhiteSpace_def js_def)
  have h2: "isLoading (initial\<lparr>inputValue := js ''why'', isLoading := True\<rparr>)"
    by simp
  show ?thesis
    using h1 h2 blank_or_loading_guard [OF disjI1 [OF h1]] blank_or_loading_guard [OF disjI2 [OF h2]]
    by simp
qed


subsection \<open>The prompt built from a reply\<close>

lemma substring_prefix: "substring c 0 n = take n c"
  by (simp add: substring_def Let_def min_def max_def)

text \<open>
  Claim C10. The custom prompt built from a message content is the fixed instruction
  followed by the first 2000 code units of the content (all of it when it is shorter),
  so it is never longer than 2000 plus the length of the instruction; and a visualization
  request started from a reply carries exactly this prompt.
\<close>

theorem content_prompt_bounded:
  "content_prompt c = text_from_content @ take 2000 c
   \<and> length (content_prompt c) \<le> 2000 + length text_from_content
   \<and> (\<forall>r. Fetch (PostVisualization r) \<in> set (fst (snd (onGenerateFromContent c s)))
          \<longrightarrow> prompt r = content_prompt c)"
proof -
  have ne: "content_prompt c \<noteq> []"
    by (simp add: content_prompt_def text_from_content_def)
  have "prompt r = content_prompt c"
    if "Fetch (PostVisualization r) \<in> set (fst (snd (onGenerateFromContent c s)))" for r
  proof -
    from that have "Fetch (PostVisualization r)
        \<in> set (fst (snd (handleGenerateImage (Some (content_prompt c)) s)))"
      by (simp add: onGenerateFromContent_def)
    from handleGenerateImage_request [OF this] ne show ?thesis
      by (simp add: or_else_def)
  qed
  then have "\<forall>r. Fetch (PostVisualization r) \<in> set (fst (snd (onGenerateFromContent c s)))
          \<longrightarrow> prompt r = content_prompt c"
    by blast
  then show ?thesis
    by (simp add: content_prompt_def substring_prefix)
qed

theorem content_prompt_bounded_witness:
  "length (content_prompt (replicate 2500 0x61)) = 2013
   \<and> Fetch (PostVisualization
        \<lparr>prompt = text_from_content @ js ''abc'', style = js ''mindmap'',
         conversation_history = [], aspect_ratio = js ''16:9''\<rparr>)
      \<in> set (fst (snd (onGenerateFromContent (js ''abc'') initial)))
   \<and> prompt \<lparr>prompt = text_from_content @ js ''abc'', style = js ''mindmap'',
         conversation_history = [], aspect_ratio = js ''16:9''\<rparr> = content_prompt (js ''abc'')"
proof -
  let ?r = "\<lparr>prompt = text_from_content @ js ''abc'', style = js ''mindmap'',
         conversation_history = [], aspect_ratio = js ''16:9''\<rparr>"
  have h: "Fetch (PostVisualization ?r) \<in> set (fst (snd (onGenerateFromContent (js ''abc'') initial)))"
    by (simp add: onGenerateFromContent_def content_prompt_def substring_def text_from_content_def
        initial_def handleGenerateImage_def conversationHistory_def slice_last_def
        or_else_def falsy_def trim_def isWhiteSpace_def js_def Let_def)
  have l: "length (content_prompt (replicate 2500 0x61)) = 2013"
    using content_prompt_bounded [of "replicate 2500 0x61" initial]
    by (simp add: text_from_content_def)
  from content_prompt_bounded [of "js ''abc''" initial] h l show ?thesis
    by (simp add: js_def)
qed

end
